theory Spec2Isabelle
  imports Complex_Main
begin

section \<open>Naive Bayes training script: the model of \<open>scripts/train_naive_bayes.py\<close>\<close>

text \<open>
  The script reads labelled records, tokenizes their text, counts tokens per category,
  estimates Laplace-smoothed log-probabilities, writes the model and re-classifies the
  training documents. Modelling conventions:
  \<^item> a Python \<open>str\<close> is a \<open>string\<close>, one \<open>char\<close> per code point below 256;
  \<^item> Python floats are idealised as \<open>real\<close>, \<open>math.log\<close> as \<open>ln\<close>; the initial
    \<open>-float('inf')\<close> of the classifier is \<open>None\<close> of type \<open>real option\<close>;
  \<^item> every exception the script can raise is a value of \<open>error\<close>, results are
    \<open>error + 'a\<close> with \<open>Inl\<close> the exception;
  \<^item> \<open>json.load\<close>/\<open>json.loads\<close> belong to the standard library and are a parameter
    \<open>loads\<close>, \<open>None\<close> standing for \<open>json.JSONDecodeError\<close>;
  \<^item> a Python \<open>set\<close> is a duplicate-free list in insertion order; CPython's iteration
    order of a set is unspecified, so every property that depends on the order is stated
    for an arbitrary enumeration of the set.
\<close>

subsection \<open>Tokenizer\<close>

text \<open>\<open>str.lower()\<close> on code points below 256: the ASCII capitals and the Latin-1 capitals
  (\<open>0xC0\<close> to \<open>0xDE\<close> without the multiplication sign \<open>0xD7\<close>) move up by 32.\<close>

definition lower_char :: "char \<Rightarrow> char" where
  "lower_char c =
     (let n = (of_char c :: nat)
      in if (65 \<le> n \<and> n \<le> 90) \<or> (192 \<le> n \<and> n \<le> 222 \<and> n \<noteq> 215)
         then char_of (n + 32) else c)"

definition lower :: "string \<Rightarrow> string" where
  "lower text = map lower_char text"

definition is_alnum :: "char \<Rightarrow> bool" where
  "is_alnum c =
     (let n = (of_char c :: nat)
      in (97 \<le> n \<and> n \<le> 122) \<or> (48 \<le> n \<and> n \<le> 57))"

text \<open>\<open>re.findall(r'[a-z0-9]+', text)\<close>: the leftmost maximal runs of lower-case ASCII letters
  and digits, in order.\<close>

function findall :: "string \<Rightarrow> string list" where
  "findall [] = []"
| "findall (c # cs) =
     (if is_alnum c
      then takeWhile is_alnum (c # cs) # findall (dropWhile is_alnum cs)
      else findall cs)"
  by pat_completeness auto
termination
  by (relation "measure length") (auto simp: length_dropWhile_le less_Suc_eq_le)

definition tokenize :: "string \<Rightarrow> string list" where
  "tokenize text = findall (lower text)"

text \<open>\<open>" ".join(tokens)\<close>.\<close>

fun join_space :: "string list \<Rightarrow> string" where
  "join_space [] = []"
| "join_space [t] = t"
| "join_space (t # u # ts) = t @ CHR '' '' # join_space (u # ts)"

subsection \<open>JSON values, exceptions, Python truthiness\<close>

text \<open>What \<open>json.loads\<close> returns: \<open>None\<close>, a bool, a number (an \<open>int\<close> or a finite \<open>float\<close>,
  both rationals), a \<open>str\<close>, a \<open>list\<close> or a \<open>dict\<close>. A dict is an association list read
  with \<open>map_of\<close>.\<close>

datatype json =
    JNull
  | JBool bool
  | JNum rat
  | JStr string
  | JArr "json list"
  | JObj "(string \<times> json) list"

datatype error =
    JSONDecodeError
  | AttributeError
  | TypeError
  | ZeroDivisionError
  | ValueError
  | KeyError

text \<open>\<open>not x\<close> is \<open>\<not> truthy x\<close>.\<close>

fun truthy :: "json \<Rightarrow> bool" where
  "truthy JNull = False"
| "truthy (JBool b) = b"
| "truthy (JNum n) = (n \<noteq> 0)"
| "truthy (JStr s) = (s \<noteq> [])"
| "truthy (JArr xs) = (xs \<noteq> [])"
| "truthy (JObj kvs) = (kvs \<noteq> [])"

text \<open>\<open>record.get(key, default)\<close>: only a dict has the method.\<close>

fun dict_get :: "json \<Rightarrow> string \<Rightarrow> json \<Rightarrow> error + json" where
  "dict_get (JObj kvs) k dflt = Inr (case map_of kvs k of None \<Rightarrow> dflt | Some v \<Rightarrow> v)"
| "dict_get _ k dflt = Inl AttributeError"

text \<open>A category is used as a member of a set and as a dict key, so it is hashed and
  compared with \<open>==\<close>: \<open>True == 1 == 1.0\<close>, lists and dicts are unhashable.\<close>

datatype key = KNone | KNum rat | KStr string

fun hash_key :: "json \<Rightarrow> error + key" where
  "hash_key JNull = Inr KNone"
| "hash_key (JBool b) = Inr (KNum (if b then 1 else 0))"
| "hash_key (JNum n) = Inr (KNum n)"
| "hash_key (JStr s) = Inr (KStr s)"
| "hash_key (JArr xs) = Inl TypeError"
| "hash_key (JObj kvs) = Inl TypeError"

text \<open>\<open>s.add(x)\<close> on a set kept as a duplicate-free list.\<close>

definition set_add :: "'a \<Rightarrow> 'a list \<Rightarrow> 'a list" where
  "set_add x xs = (if x \<in> set xs then xs else xs @ [x])"

subsection \<open>Loading the records (step 1 of \<open>train_naive_bayes\<close>)\<close>

text \<open>\<open>str.isspace\<close> on code points below 256, and \<open>line.strip()\<close> being non-empty.\<close>

definition is_space :: "char \<Rightarrow> bool" where
  "is_space c =
     (let n = (of_char c :: nat)
      in (9 \<le> n \<and> n \<le> 13) \<or> (28 \<le> n \<and> n \<le> 32) \<or> n = 133 \<or> n = 160)"

definition strip_nonempty :: "string \<Rightarrow> bool" where
  "strip_nonempty line = (\<exists>c\<in>set line. \<not> is_space c)"

text \<open>\<open>for line in f\<close> on the text of the file (newlines already translated to \<open>\n\<close>):
  every line keeps its terminator, the last line may lack one.\<close>

fun file_lines_from :: "string \<Rightarrow> string \<Rightarrow> string list" where
  "file_lines_from cur [] = (if cur = [] then [] else [rev cur])"
| "file_lines_from cur (c # cs) =
     (if c = CHR 0x0A then rev (c # cur) # file_lines_from [] cs
      else file_lines_from (c # cur) cs)"

definition file_lines :: "string \<Rightarrow> string list" where
  "file_lines content = file_lines_from [] content"

text \<open>\<open>for line in f: if line.strip(): source_records.append(json.loads(line))\<close>.
  There is no \<open>try\<close> around \<open>json.loads\<close>: its exception leaves the loop.\<close>

fun load_lines :: "(string \<Rightarrow> json option) \<Rightarrow> json list \<Rightarrow> string list \<Rightarrow> error + json list" where
  "load_lines loads source_records [] = Inr source_records"
| "load_lines loads source_records (line # rest) =
     (if strip_nonempty line
      then (case loads line of
              None \<Rightarrow> Inl JSONDecodeError
            | Some r \<Rightarrow> load_lines loads (source_records @ [r]) rest)
      else load_lines loads source_records rest)"

text \<open>The debug line of the export branch:
  \<open>senders = [r.get('sender') for r in source_records if r.get('sender')]\<close>, then
  \<open>len(set(senders))\<close>.\<close>

fun senders :: "json list \<Rightarrow> error + json list" where
  "senders [] = Inr []"
| "senders (r # rs) =
     (case dict_get r ''sender'' JNull of
        Inl e \<Rightarrow> Inl e
      | Inr s \<Rightarrow>
          (case senders rs of
             Inl e \<Rightarrow> Inl e
           | Inr ss \<Rightarrow> Inr (if truthy s then s # ss else ss)))"

fun set_of_list :: "key list \<Rightarrow> json list \<Rightarrow> error + key list" where
  "set_of_list acc [] = Inr acc"
| "set_of_list acc (x # xs) =
     (case hash_key x of
        Inl e \<Rightarrow> Inl e
      | Inr k \<Rightarrow> set_of_list (set_add k acc) xs)"

definition unique_senders :: "json list \<Rightarrow> error + nat" where
  "unique_senders source_records =
     (case senders source_records of
        Inl e \<Rightarrow> Inl e
      | Inr ss \<Rightarrow>
          (case set_of_list [] ss of
             Inl e \<Rightarrow> Inl e
           | Inr s \<Rightarrow> Inr (length s)))"

text \<open>\<open>'samples' in full_json and isinstance(full_json['samples'], list)\<close>. A text that
  starts with \<open>{\<close> decodes to a dict or not at all, so the other shapes never reach
  this test; they are given the answer \<open>None\<close>.\<close>

fun samples_of :: "json \<Rightarrow> json list option" where
  "samples_of (JObj kvs) = (case map_of kvs ''samples'' of Some (JArr xs) \<Rightarrow> Some xs | _ \<Rightarrow> None)"
| "samples_of _ = None"

text \<open>The format detection. \<open>json.load(f)\<close> is \<open>loads\<close> of the whole text. Within the
  \<open>try\<close>, a \<open>JSONDecodeError\<close> of the line-by-line reading is caught and the reading
  is started again outside of it; other exceptions pass through.\<close>

definition load_data :: "(string \<Rightarrow> json option) \<Rightarrow> string \<Rightarrow> error + json list" where
  "load_data loads content =
     (if take 1 content = ''{''
      then (case loads content of
              None \<Rightarrow> load_lines loads [] (file_lines content)
            | Some full_json \<Rightarrow>
                (case samples_of full_json of
                   Some samples \<Rightarrow>
                     (case unique_senders samples of
                        Inl e \<Rightarrow> Inl e
                      | Inr n \<Rightarrow> Inr samples)
                 | None \<Rightarrow>
                     (case load_lines loads [] (file_lines content) of
                        Inl JSONDecodeError \<Rightarrow> load_lines loads [] (file_lines content)
                      | r \<Rightarrow> r)))
      else load_lines loads [] (file_lines content))"

subsection \<open>Building the corpus (the loop over \<open>source_records\<close>)\<close>

record corpus =
  documents :: "(string list \<times> key) list"
  all_categories :: "key list"
  vocabulary :: "string list"

definition empty_corpus :: corpus where
  "empty_corpus = \<lparr>documents = [], all_categories = [], vocabulary = []\<rparr>"

text \<open>The two field look-ups of a record: \<open>merchant\<close> first and \<open>text\<close> when \<open>merchant\<close>
  is missing or falsy; \<open>category\<close> first and \<open>label\<close> when \<open>category\<close> is missing or
  falsy.\<close>

definition record_fields :: "json \<Rightarrow> error + (json \<times> json)" where
  "record_fields r =
     (case dict_get r ''merchant'' (JStr '''') of
        Inl e \<Rightarrow> Inl e
      | Inr text0 \<Rightarrow>
          (case (if \<not> truthy text0 then dict_get r ''text'' (JStr '''') else Inr text0) of
             Inl e \<Rightarrow> Inl e
           | Inr text \<Rightarrow>
               (case dict_get r ''category'' JNull of
                  Inl e \<Rightarrow> Inl e
                | Inr category0 \<Rightarrow>
                    (case (if \<not> truthy category0 then dict_get r ''label'' JNull
                           else Inr category0) of
                       Inl e \<Rightarrow> Inl e
                     | Inr category \<Rightarrow> Inr (text, category)))))"

text \<open>\<open>tokenize(text)\<close> calls \<open>text.lower()\<close>, which only a \<open>str\<close> has.\<close>

fun tokenize_value :: "json \<Rightarrow> error + string list" where
  "tokenize_value (JStr s) = Inr (tokenize s)"
| "tokenize_value _ = Inl AttributeError"

definition add_record :: "corpus \<Rightarrow> json \<Rightarrow> error + corpus" where
  "add_record st r =
     (case record_fields r of
        Inl e \<Rightarrow> Inl e
      | Inr (text, category) \<Rightarrow>
          if \<not> truthy category \<or> \<not> truthy text then Inr st
          else (case tokenize_value text of
                  Inl e \<Rightarrow> Inl e
                | Inr tokens \<Rightarrow>
                    if tokens = [] then Inr st
                    else (case hash_key category of
                            Inl e \<Rightarrow> Inl e
                          | Inr cat \<Rightarrow>
                              Inr \<lparr>documents = documents st @ [(tokens, cat)],
                                   all_categories = set_add cat (all_categories st),
                                   vocabulary = fold set_add tokens (vocabulary st)\<rparr>)))"

fun add_records :: "corpus \<Rightarrow> json list \<Rightarrow> error + corpus" where
  "add_records st [] = Inr st"
| "add_records st (r # rs) =
     (case add_record st r of
        Inl e \<Rightarrow> Inl e
      | Inr st' \<Rightarrow> add_records st' rs)"

subsection \<open>Counting (step 2)\<close>

text \<open>The three \<open>defaultdict\<close>s: a missing key reads as 0.\<close>

record counts =
  class_counts :: "key \<Rightarrow> nat"
  class_word_counts :: "key \<Rightarrow> string \<Rightarrow> nat"
  class_total_words :: "key \<Rightarrow> nat"

definition empty_counts :: counts where
  "empty_counts =
     \<lparr>class_counts = (\<lambda>c. 0), class_word_counts = (\<lambda>c w. 0), class_total_words = (\<lambda>c. 0)\<rparr>"

definition count_token :: "key \<Rightarrow> string \<Rightarrow> counts \<Rightarrow> counts" where
  "count_token category token cn =
     cn\<lparr>class_word_counts :=
          (class_word_counts cn)
            (category := (class_word_counts cn category)
                           (token := class_word_counts cn category token + 1)),
        class_total_words :=
          (class_total_words cn)(category := class_total_words cn category + 1)\<rparr>"

definition count_document :: "string list \<times> key \<Rightarrow> counts \<Rightarrow> counts" where
  "count_document d cn =
     (case d of (tokens, category) \<Rightarrow>
        fold (count_token category) tokens
          (cn\<lparr>class_counts := (class_counts cn)(category := class_counts cn category + 1)\<rparr>))"

definition count_documents :: "(string list \<times> key) list \<Rightarrow> counts" where
  "count_documents docs = fold count_document docs empty_counts"

subsection \<open>Estimation (step 3)\<close>

text \<open>True division of two non-negative ints and \<open>math.log\<close>, with their exceptions.\<close>

definition py_div :: "nat \<Rightarrow> nat \<Rightarrow> error + real" where
  "py_div a b = (if b = 0 then Inl ZeroDivisionError else Inr (real a / real b))"

definition py_log :: "real \<Rightarrow> error + real" where
  "py_log x = (if x \<le> 0 then Inl ValueError else Inr (ln x))"

definition log_ratio :: "nat \<Rightarrow> nat \<Rightarrow> error + real" where
  "log_ratio a b = (case py_div a b of Inl e \<Rightarrow> Inl e | Inr prob \<Rightarrow> py_log prob)"

text \<open>\<open>for cat in all_categories: log_priors[cat] = math.log(class_counts[cat] / total_docs)\<close>.\<close>

fun calc_log_priors ::
  "counts \<Rightarrow> nat \<Rightarrow> (key \<rightharpoonup> real) \<Rightarrow> key list \<Rightarrow> error + (key \<rightharpoonup> real)" where
  "calc_log_priors cn total_docs log_priors [] = Inr log_priors"
| "calc_log_priors cn total_docs log_priors (cat # cats) =
     (case log_ratio (class_counts cn cat) total_docs of
        Inl e \<Rightarrow> Inl e
      | Inr lp \<Rightarrow> calc_log_priors cn total_docs (log_priors(cat \<mapsto> lp)) cats)"

text \<open>The inner loop \<open>for word in vocabulary\<close> and the outer loop
  \<open>for cat in all_categories\<close> of the likelihood table.\<close>

fun calc_row ::
  "(string \<Rightarrow> nat) \<Rightarrow> nat \<Rightarrow> (string \<rightharpoonup> real) \<Rightarrow> string list \<Rightarrow> error + (string \<rightharpoonup> real)" where
  "calc_row word_counts denom row [] = Inr row"
| "calc_row word_counts denom row (word # ws) =
     (case log_ratio (word_counts word + 1) denom of
        Inl e \<Rightarrow> Inl e
      | Inr lp \<Rightarrow> calc_row word_counts denom (row(word \<mapsto> lp)) ws)"

fun calc_log_likelihoods ::
  "counts \<Rightarrow> string list \<Rightarrow> (key \<rightharpoonup> (string \<rightharpoonup> real)) \<Rightarrow> key list \<Rightarrow>
   error + (key \<rightharpoonup> (string \<rightharpoonup> real))" where
  "calc_log_likelihoods cn vocab log_likelihoods [] = Inr log_likelihoods"
| "calc_log_likelihoods cn vocab log_likelihoods (cat # cats) =
     (case calc_row (class_word_counts cn cat) (class_total_words cn cat + length vocab)
             Map.empty vocab of
        Inl e \<Rightarrow> Inl e
      | Inr row \<Rightarrow> calc_log_likelihoods cn vocab (log_likelihoods(cat \<mapsto> row)) cats)"

subsection \<open>The model (step 4)\<close>

record model =
  algorithm :: string
  vocab_size :: nat
  doc_count :: nat
  priors :: "key \<rightharpoonup> real"
  likelihoods :: "key \<rightharpoonup> (string \<rightharpoonup> real)"

definition estimate :: "corpus \<Rightarrow> error + model" where
  "estimate cp =
     (let cn = count_documents (documents cp);
          total_docs = length (documents cp)
      in case calc_log_priors cn total_docs Map.empty (all_categories cp) of
           Inl e \<Rightarrow> Inl e
         | Inr log_priors \<Rightarrow>
             (case calc_log_likelihoods cn (vocabulary cp) Map.empty (all_categories cp) of
                Inl e \<Rightarrow> Inl e
              | Inr log_likelihoods \<Rightarrow>
                  Inr \<lparr>algorithm = ''NaiveBayes'',
                       vocab_size = length (vocabulary cp),
                       doc_count = total_docs,
                       priors = log_priors,
                       likelihoods = log_likelihoods\<rparr>))"

subsection \<open>Classification and the self-test\<close>

text \<open>\<open>for token in tokens: if token in log_likelihoods[cat]: score += log_likelihoods[cat][token]\<close>.\<close>

fun add_token_scores :: "(string \<rightharpoonup> real) \<Rightarrow> real \<Rightarrow> string list \<Rightarrow> real" where
  "add_token_scores row score [] = score"
| "add_token_scores row score (token # tokens) =
     (case row token of
        Some l \<Rightarrow> add_token_scores row (score + l) tokens
      | None \<Rightarrow> add_token_scores row score tokens)"

text \<open>The score of one category; reading a dict at a missing key raises \<open>KeyError\<close>.\<close>

definition category_score :: "model \<Rightarrow> string list \<Rightarrow> key \<Rightarrow> error + real" where
  "category_score m tokens cat =
     (case priors m cat of
        None \<Rightarrow> Inl KeyError
      | Some score \<Rightarrow>
          if tokens = [] then Inr score
          else (case likelihoods m cat of
                  None \<Rightarrow> Inl KeyError
                | Some row \<Rightarrow> Inr (add_token_scores row score tokens)))"

text \<open>\<open>score > best_score\<close>, where \<open>best_score\<close> starts at minus infinity (\<open>None\<close>).\<close>

fun exceeds :: "real \<Rightarrow> real option \<Rightarrow> bool" where
  "exceeds score None = True"
| "exceeds score (Some best_score) = (score > best_score)"

text \<open>The loop \<open>for cat in all_categories\<close> of the self-test, on the pair
  \<open>(best_cat, best_score)\<close>.\<close>

fun best_category ::
  "model \<Rightarrow> string list \<Rightarrow> key option \<times> real option \<Rightarrow> key list \<Rightarrow>
   error + (key option \<times> real option)" where
  "best_category m tokens best [] = Inr best"
| "best_category m tokens best (cat # cats) =
     (case category_score m tokens cat of
        Inl e \<Rightarrow> Inl e
      | Inr score \<Rightarrow>
          best_category m tokens
            (if exceeds score (snd best) then (Some cat, Some score) else best) cats)"

definition classify :: "model \<Rightarrow> key list \<Rightarrow> string list \<Rightarrow> error + key option" where
  "classify m cats tokens =
     (case best_category m tokens (None, None) cats of
        Inl e \<Rightarrow> Inl e
      | Inr best \<Rightarrow> Inr (fst best))"

text \<open>\<open>for tokens, true_cat in documents: ... if best_cat == true_cat: correct += 1\<close>.\<close>

fun self_test :: "model \<Rightarrow> key list \<Rightarrow> nat \<Rightarrow> (string list \<times> key) list \<Rightarrow> error + nat" where
  "self_test m cats correct [] = Inr correct"
| "self_test m cats correct ((tokens, true_cat) # docs) =
     (case classify m cats tokens of
        Inl e \<Rightarrow> Inl e
      | Inr best_cat \<Rightarrow>
          self_test m cats (if best_cat = Some true_cat then correct + 1 else correct) docs)"

subsection \<open>The whole run\<close>

text \<open>What a run leaves behind: the model written to the output path, if the run got
  that far, and either the exception that ended it or the accuracy it printed last.\<close>

record run =
  output_file :: "model option"
  outcome :: "error + real"

definition train_naive_bayes :: "(string \<Rightarrow> json option) \<Rightarrow> string \<Rightarrow> run" where
  "train_naive_bayes loads content =
     (case load_data loads content of
        Inl e \<Rightarrow> \<lparr>output_file = None, outcome = Inl e\<rparr>
      | Inr source_records \<Rightarrow>
          (case add_records empty_corpus source_records of
             Inl e \<Rightarrow> \<lparr>output_file = None, outcome = Inl e\<rparr>
           | Inr cp \<Rightarrow>
               (case estimate cp of
                  Inl e \<Rightarrow> \<lparr>output_file = None, outcome = Inl e\<rparr>
                | Inr m \<Rightarrow>
                    \<lparr>output_file = Some m,
                     outcome =
                       (case self_test m (all_categories cp) 0 (documents cp) of
                          Inl e \<Rightarrow> Inl e
                        | Inr correct \<Rightarrow> py_div correct (doc_count m))\<rparr>)))"

section \<open>Properties\<close>

subsection \<open>Tokenizer\<close>

lemma lower_alnum: "is_alnum c \<Longrightarrow> lower_char c = c"
  by (auto simp: is_alnum_def lower_char_def Let_def)

lemma findall_tokens: "t \<in> set (findall s) \<Longrightarrow> t \<noteq> [] \<and> (\<forall>c\<in>set t. is_alnum c)"
proof (induction s arbitrary: t rule: findall.induct)
  case 1
  then show ?case by simp
next
  case (2 c cs)
  show ?case
  proof (cases "is_alnum c")
    case True
    with 2(3) have "t = c # takeWhile is_alnum cs \<or> t \<in> set (findall (dropWhile is_alnum cs))"
      by simp
    then show ?thesis
    proof
      assume t: "t = c # takeWhile is_alnum cs"
      have "\<forall>x\<in>set (takeWhile is_alnum cs). is_alnum x"
        by (meson set_takeWhileD)
      with t True show ?thesis by simp
    next
      assume "t \<in> set (findall (dropWhile is_alnum cs))"
      with 2(1)[OF True] show ?thesis by blast
    qed
  next
    case False
    with 2(3) have "t \<in> set (findall cs)" by simp
    with 2(2)[OF False] show ?thesis by blast
  qed
qed

lemma findall_run:
  assumes "t \<noteq> []" "\<forall>c\<in>set t. is_alnum c" "\<not> is_alnum d"
  shows "findall (t @ d # rest) = t # findall rest"
proof -
  obtain c cs where t: "t = c # cs" using assms(1) by (cases t) auto
  have "takeWhile is_alnum (cs @ d # rest) = cs"
    using assms t by (simp add: takeWhile_tail)
  moreover have "dropWhile is_alnum (cs @ d # rest) = d # rest"
    using assms t by (simp add: dropWhile_append3)
  ultimately show ?thesis using assms t by simp
qed

lemma findall_single:
  assumes "t \<noteq> []" "\<forall>c\<in>set t. is_alnum c"
  shows "findall t = [t]"
proof -
  obtain c cs where t: "t = c # cs" using assms(1) by (cases t) auto
  have c: "is_alnum c" and cs: "\<forall>x\<in>set cs. is_alnum x"
    using assms(2) t by simp_all
  have d: "dropWhile is_alnum cs = []" and k: "takeWhile is_alnum cs = cs"
    using cs by simp_all
  show ?thesis unfolding t by (simp add: c d k)
qed

lemma space_not_alnum: "\<not> is_alnum (CHR '' '')"
  by (simp add: is_alnum_def)

lemma findall_join:
  "\<forall>t\<in>set ts. t \<noteq> [] \<and> (\<forall>c\<in>set t. is_alnum c) \<Longrightarrow> findall (join_space ts) = ts"
proof (induction ts rule: join_space.induct)
  case 1
  then show ?case by simp
next
  case (2 t)
  then show ?case by (simp add: findall_single)
next
  case (3 t u ts)
  then show ?case by (simp add: findall_run space_not_alnum)
qed

lemma lower_token: "\<forall>c\<in>set t. is_alnum c \<Longrightarrow> map lower_char t = t"
  by (induction t) (simp_all add: lower_alnum)

lemma lower_join:
  "\<forall>t\<in>set ts. \<forall>c\<in>set t. is_alnum c \<Longrightarrow> lower (join_space ts) = join_space ts"
proof (induction ts rule: join_space.induct)
  case 1
  then show ?case by (simp add: lower_def)
next
  case (2 t)
  then show ?case by (simp add: lower_def lower_token)
next
  case (3 t u ts)
  then show ?case by (simp add: lower_def lower_token lower_char_def)
qed

text \<open>
  Claim C9. Re-tokenizing is idempotent: for every string \<open>s\<close>, tokenizing the tokens of
  \<open>s\<close> joined by single spaces gives exactly the tokens of \<open>s\<close> again.
\<close>

theorem tokenize_idempotent: "tokenize (join_space (tokenize s)) = tokenize s"
proof -
  have tok: "\<forall>t\<in>set (tokenize s). t \<noteq> [] \<and> (\<forall>c\<in>set t. is_alnum c)"
    unfolding tokenize_def using findall_tokens by blast
  then have "lower (join_space (tokenize s)) = join_space (tokenize s)"
    by (simp add: lower_join)
  then show ?thesis
    using tok by (simp add: tokenize_def[of "join_space (tokenize s)"] findall_join)
qed


end
